theory Spec2Isabelle
  imports Main
begin

section \<open>Values handled by \<^verbatim>\<open>yaml.ts\<close>\<close>

text \<open>
  The documents of \<^verbatim>\<open>yaml.ts\<close> have the TypeScript type \<^verbatim>\<open>any\<close>. The model takes the
  values a document can be: the undefined marker, null, booleans, numbers, strings, arrays
  and objects with string keys in insertion order, and the two collections that are
  objects without being arrays or mappings, \<^verbatim>\<open>Set\<close> (its members) and \<^verbatim>\<open>Map\<close> (its
  entries), which the YAML package returns for the sets and ordered maps of YAML 1.1.
  No line of \<^verbatim>\<open>yaml.ts\<close> looks inside a number, so the carrier of numbers is the type
  parameter \<open>'n\<close>.
\<close>

datatype 'n jsval =
    JUndefined
  | JNull
  | JBool bool
  | JNum 'n
  | JStr string
  | JArr "'n jsval list"
  | JObj "(string \<times> 'n jsval) list"
  | JSet "'n jsval list"
  | JMap "('n jsval \<times> 'n jsval) list"

text \<open>The JavaScript operators that \<^verbatim>\<open>Yaml.load\<close> applies to a parsed value.\<close>

fun typeof :: "'n jsval \<Rightarrow> string" where
  "typeof JUndefined = ''undefined''"
| "typeof JNull = ''object''"
| "typeof (JBool b) = ''boolean''"
| "typeof (JNum n) = ''number''"
| "typeof (JStr s) = ''string''"
| "typeof (JArr xs) = ''object''"
| "typeof (JObj kvs) = ''object''"
| "typeof (JSet xs) = ''object''"
| "typeof (JMap ps) = ''object''"

fun Array_isArray :: "'n jsval \<Rightarrow> bool" where
  "Array_isArray (JArr xs) = True"
| "Array_isArray v = False"

text \<open>
  \<^verbatim>\<open>obj.length\<close> is read only after \<^verbatim>\<open>Array.isArray(obj)\<close> and \<^verbatim>\<open>Object.keys(obj)\<close> only
  after \<^verbatim>\<open>typeof obj === 'object'\<close> on a value that is not null, so the other equations
  are never reached by \<^verbatim>\<open>load\<close>. The keys of an array are its indices, and an object
  has each of its keys once; only the number of keys is observed. The members of a
  \<^verbatim>\<open>Set\<close> and the entries of a \<^verbatim>\<open>Map\<close> are not properties of the object:
  \<^verbatim>\<open>Object.keys\<close> of either is the empty array, whatever it holds.
\<close>

fun array_length :: "'n jsval \<Rightarrow> nat" where
  "array_length (JArr xs) = length xs"
| "array_length v = 0"

fun Object_keys_length :: "'n jsval \<Rightarrow> nat" where
  "Object_keys_length (JObj kvs) = length (map fst kvs)"
| "Object_keys_length (JArr xs) = length xs"
| "Object_keys_length (JSet xs) = 0"
| "Object_keys_length (JMap ps) = 0"
| "Object_keys_length v = 0"

section \<open>The collaborators of \<^verbatim>\<open>yaml.ts\<close>\<close>

text \<open>
  An exception thrown by a collaborator is a value: a call returns \<open>Inl\<close> of the error or
  \<open>Inr\<close> of its result. \<^verbatim>\<open>yaml.ts\<close> has no \<^verbatim>\<open>try\<close> and no \<^verbatim>\<open>throw\<close> of its own.
\<close>

datatype exec_failure = NonZeroExit int | MaxBufferExceeded

datatype error = ExecError exec_failure | YamlError string

text \<open>The option objects passed to the YAML package and to \<^verbatim>\<open>execFileSync\<close>;
  a key that the call does not give is \<open>None\<close>.\<close>

record yaml_options =
  keepUndefined :: "bool option"
  lineWidth :: "nat option"
  version :: "string option"

record exec_options =
  encoding :: string
  maxBuffer :: nat

text \<open>
  The imports of \<^verbatim>\<open>yaml.ts\<close> that the modelled functions call, and the two values of the
  process they read: \<^verbatim>\<open>YAML.stringify\<close>, \<^verbatim>\<open>YAML.parseAllDocuments\<close> and the \<^verbatim>\<open>toJSON\<close>
  method of its documents (type \<open>'d\<close>), \<^verbatim>\<open>execFileSync\<close>, \<^verbatim>\<open>process.execPath\<close> and
  \<^verbatim>\<open>__dirname\<close>. Their code is not part of the repository.
\<close>

record ('d, 'n) env =
  YAML_stringify :: "'n jsval \<Rightarrow> yaml_options \<Rightarrow> string"
  YAML_parseAllDocuments :: "string \<Rightarrow> yaml_options \<Rightarrow> error + 'd list"
  toJSON :: "'d \<Rightarrow> error + 'n jsval"
  execFileSync :: "string \<Rightarrow> string list \<Rightarrow> exec_options \<Rightarrow> error + string"
  execPath :: string
  dirname :: string

section \<open>\<^verbatim>\<open>yaml.ts\<close>\<close>

definition MAX_DOWNLOAD_BUFFER :: nat where
  "MAX_DOWNLOAD_BUFFER = 10 * 1024 * 1024"

definition yamlSchemaVersion :: string where
  "yamlSchemaVersion = ''1.1''"

text \<open>\<^verbatim>\<open>Array.prototype.join\<close> on an array of strings.\<close>

fun join :: "string \<Rightarrow> string list \<Rightarrow> string" where
  "join sep [] = []"
| "join sep [x] = x"
| "join sep (x # y # ys) = x @ sep @ join sep (y # ys)"

definition stringify_options :: yaml_options where
  "stringify_options =
     \<lparr>keepUndefined = Some True, lineWidth = Some 0, version = Some yamlSchemaVersion\<rparr>"

definition stringify :: "('d, 'n) env \<Rightarrow> 'n jsval list \<Rightarrow> string" where
  "stringify E docs =
     join ''---\<newline>''
       (map (\<lambda>r. if r = JUndefined then ''\<newline>'' else YAML_stringify E r stringify_options) docs)"

definition formatObjects :: "('d, 'n) env \<Rightarrow> 'n jsval list \<Rightarrow> string" where
  "formatObjects E docs = stringify E docs"

text \<open>\<^verbatim>\<open>path.join\<close> of a directory and a file name, without its normalisation.\<close>

definition path_join :: "string \<Rightarrow> string \<Rightarrow> string" where
  "path_join dir file = dir @ ''/'' @ file"

definition loadurl :: "('d, 'n) env \<Rightarrow> string \<Rightarrow> error + string" where
  "loadurl E url =
     (let script = path_join (dirname E) ''_loadurl.mjs''
      in execFileSync E (execPath E) [script, url]
           \<lparr>encoding = ''utf-8'', maxBuffer = MAX_DOWNLOAD_BUFFER\<rparr>)"

definition parse_options :: yaml_options where
  "parse_options = \<lparr>keepUndefined = None, lineWidth = None, version = Some yamlSchemaVersion\<rparr>"

text \<open>\<^verbatim>\<open>objects.map(x => x.toJSON())\<close>: the whole array is converted before the loop
  starts, and the first call that throws ends \<^verbatim>\<open>load\<close>.\<close>

fun map_toJSON :: "('d \<Rightarrow> error + 'n jsval) \<Rightarrow> 'd list \<Rightarrow> error + 'n jsval list" where
  "map_toJSON f [] = Inr []"
| "map_toJSON f (x # xs) =
     (case f x of
        Inl e \<Rightarrow> Inl e
      | Inr v \<Rightarrow> (case map_toJSON f xs of Inl e \<Rightarrow> Inl e | Inr vs \<Rightarrow> Inr (v # vs)))"

text \<open>The \<^verbatim>\<open>for\<close> loop of \<^verbatim>\<open>load\<close>: the values still to visit, and \<^verbatim>\<open>result\<close> so far.\<close>

fun load_loop :: "'n jsval list \<Rightarrow> 'n jsval list \<Rightarrow> 'n jsval list" where
  "load_loop [] result = result"
| "load_loop (obj # objs) result =
     (if obj = JUndefined then load_loop objs result
      else if obj = JNull then load_loop objs result
      else if Array_isArray obj \<and> array_length obj = 0 then load_loop objs result
      else if typeof obj = ''object'' \<and> Object_keys_length obj = 0 then load_loop objs result
      else load_loop objs (result @ [obj]))"

text \<open>Lines 75 to 90 of \<^verbatim>\<open>load\<close>: everything after the text has been fetched.\<close>

definition load_body :: "('d, 'n) env \<Rightarrow> string \<Rightarrow> error + 'n jsval list" where
  "load_body E body =
     (case YAML_parseAllDocuments E body parse_options of
        Inl e \<Rightarrow> Inl e
      | Inr objects \<Rightarrow>
          (case map_toJSON (toJSON E) objects of
             Inl e \<Rightarrow> Inl e
           | Inr objs \<Rightarrow> Inr (load_loop objs [])))"

definition load :: "('d, 'n) env \<Rightarrow> string \<Rightarrow> error + 'n jsval list" where
  "load E urlOrFile =
     (case loadurl E urlOrFile of
        Inl e \<Rightarrow> Inl e
      | Inr body \<Rightarrow> load_body E body)"

section \<open>Collaborators modelled from the specification\<close>

text \<open>The outcome of a child process that has run to its end: its exit status and all
  that it wrote on its standard output.\<close>

record proc_result =
  exit_status :: int
  stdout :: string

text \<open>
  Modelled from the spec: \<^verbatim>\<open>execFileSync\<close> of the Node runtime, which is not in the
  repository. Sections 4.5 and 6: the collaborator is run with the given arguments and its
  whole standard output is returned; output beyond the \<^verbatim>\<open>maxBuffer\<close> cap fails the call
  rather than being cut, and so does a nonzero exit status. What the child process does
  is the parameter \<open>run\<close>.
\<close>

definition execFileSync_spec ::
  "(string \<Rightarrow> string list \<Rightarrow> proc_result) \<Rightarrow> string \<Rightarrow> string list \<Rightarrow> exec_options
     \<Rightarrow> error + string" where
  "execFileSync_spec run file args opts =
     (let r = run file args
      in if maxBuffer opts < length (stdout r) then Inl (ExecError MaxBufferExceeded)
         else if exit_status r \<noteq> 0 then Inl (ExecError (NonZeroExit (exit_status r)))
         else Inr (stdout r))"

text \<open>
  Modelled from the spec: which properties of a mapping \<^verbatim>\<open>YAML.stringify\<close> of the YAML
  package, which is not in the repository, puts into the document. Section 4.1 (b): with
  \<^verbatim>\<open>keepUndefined\<close> a property whose value is undefined is still emitted; by the common
  convention, without it, such a property is omitted.
\<close>

definition emitted_properties ::
  "yaml_options \<Rightarrow> (string \<times> 'n jsval) list \<Rightarrow> (string \<times> 'n jsval) list" where
  "emitted_properties opts kvs =
     (if keepUndefined opts = Some True then kvs
      else filter (\<lambda>(k, v). v \<noteq> JUndefined) kvs)"

text \<open>
  Modelled from the spec: the text of one emitted property in the YAML written by the
  package (section 6, the wire format): the key, a colon and the value on one line. An
  undefined value is written like null. The text of any other value is the parameter
  \<open>value_text\<close>.
\<close>

definition property_text :: "('n jsval \<Rightarrow> string) \<Rightarrow> string \<times> 'n jsval \<Rightarrow> string" where
  "property_text value_text p =
     fst p @ '': ''
       @ (if snd p = JUndefined \<or> snd p = JNull then ''null'' else value_text (snd p))
       @ ''\<newline>''"

text \<open>
  Modelled from the spec: \<^verbatim>\<open>YAML.stringify\<close> of the YAML package, which is not in the
  repository, on one document (section 4.1): a mapping is written as the lines of its
  emitted properties in their order, a mapping with none as \<^verbatim>\<open>{}\<close>; any other value as
  its text on one line.
\<close>

definition YAML_stringify_spec ::
  "('n jsval \<Rightarrow> string) \<Rightarrow> 'n jsval \<Rightarrow> yaml_options \<Rightarrow> string" where
  "YAML_stringify_spec value_text v opts =
     (case v of
        JObj kvs \<Rightarrow>
          (if emitted_properties opts kvs = [] then ''{}\<newline>''
           else concat (map (property_text value_text) (emitted_properties opts kvs)))
      | _ \<Rightarrow> value_text v @ ''\<newline>'')"

text \<open>
  Modelled from the spec: how the parser of the YAML package, which is not in the
  repository, reads an unquoted literal made of digits. Section 3: version 1.1 reads a
  literal with a leading zero, such as 0775, as octal; read as decimal, as another
  version does, it would be 775.
\<close>

definition digit_of :: "char \<Rightarrow> nat option" where
  "digit_of c = map_of (zip ''0123456789'' [0, 1, 2, 3, 4, 5, 6, 7, 8, 9]) c"

text \<open>Modelled from the spec: the number that a string of digits denotes in a base; a
  character that is not a digit of the base makes the literal no number.\<close>

fun digits_value :: "nat \<Rightarrow> nat \<Rightarrow> string \<Rightarrow> nat option" where
  "digits_value base acc [] = Some acc"
| "digits_value base acc (c # cs) =
     (case digit_of c of
        None \<Rightarrow> None
      | Some d \<Rightarrow> if d < base then digits_value base (acc * base + d) cs else None)"

text \<open>Modelled from the spec: the reading of an unquoted literal under a schema version
  (section 3).\<close>

definition resolve_integer :: "string option \<Rightarrow> string \<Rightarrow> nat option" where
  "resolve_integer ver s =
     (case s of
        [] \<Rightarrow> None
      | c # cs \<Rightarrow>
          if ver = Some ''1.1'' \<and> c = CHR ''0'' \<and> cs \<noteq> [] then digits_value 8 0 cs
          else digits_value 10 0 s)"

text \<open>
  Modelled from the spec: \<^verbatim>\<open>YAML.parseAllDocuments\<close> of the YAML package, which is not in
  the repository, on a stream that is one line holding an unquoted literal of digits: one
  document, the number that the literal denotes under the schema version of the options
  (sections 3 and 8). A document is represented by its value. On any other text the
  parser is the parameter \<open>rest\<close>.
\<close>

definition YAML_parseAllDocuments_spec ::
  "(string \<Rightarrow> yaml_options \<Rightarrow> error + int jsval list) \<Rightarrow> string \<Rightarrow> yaml_options
     \<Rightarrow> error + int jsval list" where
  "YAML_parseAllDocuments_spec rest body opts =
     (let line = takeWhile (\<lambda>c. c \<noteq> CHR ''\<newline>'') body
      in if body = line @ ''\<newline>'' then
           (case resolve_integer (version opts) line of
              Some n \<Rightarrow> Inr [JNum (int n)]
            | None \<Rightarrow> rest body opts)
         else rest body opts)"

section \<open>A sample environment\<close>

text \<open>
  A small environment on which the theorems below are instantiated: its documents are the
  values themselves, its parser returns a fixed list of documents, and its fetch returns a
  fixed text.
\<close>

definition sample_documents :: "int jsval list" where
  "sample_documents =
     [JUndefined, JNum 0, JNull, JBool False, JArr [], JStr [], JObj [],
      JObj [(''a'', JNum 1)], JArr [JNull]]"

definition sample_env :: "(int jsval, int) env" where
  "sample_env =
     \<lparr>YAML_stringify = (\<lambda>v opts. ''a: 1\<newline>''),
      YAML_parseAllDocuments =
        (\<lambda>body opts.
           Inr (if body = ''\<newline>---\<newline>a: 1\<newline>''
                then [JUndefined, JObj [(''a'', JNum 1)]]
                else sample_documents)),
      toJSON = Inr,
      execFileSync = (\<lambda>file args opts. Inr ''a: 1\<newline>''),
      execPath = ''/usr/bin/node'',
      dirname = ''/app/lib''\<rparr>"

text \<open>A child process that fails for one location, floods its output for another and
  succeeds otherwise.\<close>

definition sample_run :: "string \<Rightarrow> string list \<Rightarrow> proc_result" where
  "sample_run file args =
     (if args = [''/app/lib/_loadurl.mjs'', ''missing.yaml'']
        then \<lparr>exit_status = 1, stdout = []\<rparr>
      else if args = [''/app/lib/_loadurl.mjs'', ''huge.yaml'']
        then \<lparr>exit_status = 0, stdout = replicate (10 * 1024 * 1024 + 1) CHR ''a''\<rparr>
      else \<lparr>exit_status = 0, stdout = ''a: 1\<newline>''\<rparr>)"

text \<open>The text of the numbers 0 and 1 and of strings, enough for the mappings below.\<close>

definition sample_value_text :: "int jsval \<Rightarrow> string" where
  "sample_value_text v =
     (case v of
        JNum n \<Rightarrow> (if n = 0 then ''0'' else ''1'')
      | JStr s \<Rightarrow> s
      | _ \<Rightarrow> ''?'')"

text \<open>
  The environment of a file that holds the YAML 1.1 set with the members \<^verbatim>\<open>a\<close> and \<^verbatim>\<open>b\<close>:
  the fetch returns its text and the document of the parser converts to a \<^verbatim>\<open>Set\<close> of the
  two strings.
\<close>

definition set_env :: "(int jsval, int) env" where
  "set_env =
     sample_env
       \<lparr>YAML_parseAllDocuments := (\<lambda>body opts. Inr [JSet [JStr ''a'', JStr ''b'']]),
        execFileSync := (\<lambda>file args opts. Inr ''!!set\<newline>? a\<newline>? b\<newline>'')\<rparr>"


section \<open>The empty-document filter\<close>

text \<open>The loop keeps, in their order, the values that pass its four tests.\<close>

lemma load_loop_filter:
  "load_loop objs result =
     result @ filter (\<lambda>v. v \<noteq> JUndefined \<and> v \<noteq> JNull
                 \<and> \<not> (Array_isArray v \<and> array_length v = 0)
                 \<and> \<not> (typeof v = ''object'' \<and> Object_keys_length v = 0)) objs"
  by (induction objs arbitrary: result) simp_all

text \<open>Which values pass the four tests.\<close>

lemma passes_tests_cases:
  "(v \<noteq> JUndefined \<and> v \<noteq> JNull
      \<and> \<not> (Array_isArray v \<and> array_length v = 0)
      \<and> \<not> (typeof v = ''object'' \<and> Object_keys_length v = 0))
   = (case v of
        JUndefined \<Rightarrow> False
      | JNull \<Rightarrow> False
      | JArr xs \<Rightarrow> xs \<noteq> []
      | JObj kvs \<Rightarrow> kvs \<noteq> []
      | JSet xs \<Rightarrow> False
      | JMap ps \<Rightarrow> False
      | _ \<Rightarrow> True)"
  by (cases v) simp_all

text \<open>On values that are neither a \<^verbatim>\<open>Set\<close> nor a \<^verbatim>\<open>Map\<close> the loop drops exactly the
  undefined marker, null, the empty array and the object with no key.\<close>

lemma load_loop_without_collections:
  assumes "\<forall>v \<in> set objs. (\<forall>xs. v \<noteq> JSet xs) \<and> (\<forall>ps. v \<noteq> JMap ps)"
  shows "load_loop objs [] =
           filter (\<lambda>v. v \<noteq> JUndefined \<and> v \<noteq> JNull \<and> v \<noteq> JArr [] \<and> v \<noteq> JObj []) objs"
proof -
  have "filter (\<lambda>v. v \<noteq> JUndefined \<and> v \<noteq> JNull
                 \<and> \<not> (Array_isArray v \<and> array_length v = 0)
                 \<and> \<not> (typeof v = ''object'' \<and> Object_keys_length v = 0)) objs
        = filter (\<lambda>v. v \<noteq> JUndefined \<and> v \<noteq> JNull \<and> v \<noteq> JArr [] \<and> v \<noteq> JObj []) objs"
  proof (rule filter_cong [OF refl])
    fix v assume "v \<in> set objs"
    with assms have "(\<forall>xs. v \<noteq> JSet xs) \<and> (\<forall>ps. v \<noteq> JMap ps)" by blast
    then show "(v \<noteq> JUndefined \<and> v \<noteq> JNull
                 \<and> \<not> (Array_isArray v \<and> array_length v = 0)
                 \<and> \<not> (typeof v = ''object'' \<and> Object_keys_length v = 0))
               = (v \<noteq> JUndefined \<and> v \<noteq> JNull \<and> v \<noteq> JArr [] \<and> v \<noteq> JObj [])"
      by (cases v) simp_all
  qed
  then show ?thesis by (simp add: load_loop_filter)
qed

text \<open>
  C1. The loop of \<^verbatim>\<open>load\<close> does not drop the empty documents only. A \<^verbatim>\<open>Set\<close> or a
  \<^verbatim>\<open>Map\<close> is an object whose \<^verbatim>\<open>Object.keys\<close> is empty, so the fourth test, written to
  skip the mapping with no key, drops it whatever it holds: the set with the members
  \<^verbatim>\<open>a\<close> and \<^verbatim>\<open>b\<close> is none of the undefined marker, null, an empty sequence or a mapping
  with no key, and yet \<^verbatim>\<open>load\<close> of the file that holds it returns the empty list, while
  the mapping next to it and the scalars 0, false and the empty string are kept.
\<close>

theorem load_drops_nonempty_set:
  "load_loop (JSet xs # objs) result = load_loop objs result
   \<and> load_loop (JMap ps # objs) result = load_loop objs result
   \<and> load_loop [JSet [JStr ''a'', JStr ''b''], JObj [(''a'', JNum (1::int))]] []
       = [JObj [(''a'', JNum 1)]]
   \<and> load_loop [JNum (0::int), JBool False, JStr []] [] = [JNum 0, JBool False, JStr []]
   \<and> load set_env ''set.yaml'' = Inr []"
  by (simp add: load_def load_body_def loadurl_def set_env_def sample_env_def)

section \<open>Serialisation\<close>

lemma join_concat: "join sep (x # xs) = x @ concat (map (\<lambda>y. sep @ y) xs)"
  by (induction xs arbitrary: x) simp_all

text \<open>
  C3. \<^verbatim>\<open>stringify\<close> of no document is the empty string. Otherwise the result is the text
  of the first document, then, for each later document in input order, the separator
  \<^verbatim>\<open>---\<close> with a newline and the text of that document; the text of a document is a
  blank line when it is undefined and its YAML serialisation otherwise. So N documents
  give N texts, joined by the separator.
\<close>

theorem stringify_joins_document_texts:
  "(let text_of = (\<lambda>r. if r = JUndefined then ''\<newline>''
                         else YAML_stringify E r stringify_options)
    in stringify E [] = []
       \<and> stringify E (d # ds) = text_of d @ concat (map (\<lambda>r. ''---\<newline>'' @ text_of r) ds)
       \<and> stringify E docs = join ''---\<newline>'' (map text_of docs)
       \<and> length (map text_of docs) = length docs)"
  by (simp add: stringify_def join_concat comp_def)

text \<open>
  C9. The deprecated \<^verbatim>\<open>formatObjects\<close> returns, for every list of documents, the string
  that \<^verbatim>\<open>stringify\<close> returns for the same documents.
\<close>

theorem formatObjects_eq_stringify: "formatObjects E docs = stringify E docs"
  by (simp add: formatObjects_def)

section \<open>The result of a successful load\<close>

lemma load_Inr_filter:
  assumes "load E url = Inr result"
  shows "\<exists>objs. result = filter (\<lambda>v. v \<noteq> JUndefined \<and> v \<noteq> JNull
                 \<and> \<not> (Array_isArray v \<and> array_length v = 0)
                 \<and> \<not> (typeof v = ''object'' \<and> Object_keys_length v = 0)) objs"
  using assms
  by (auto simp: load_def load_body_def load_loop_filter split: sum.splits)

text \<open>
  C10. Every element of the list that a successful \<^verbatim>\<open>load\<close> returns is neither the
  undefined marker, nor null, nor an array of length zero, nor an object with no key.
\<close>

theorem load_result_has_no_empty_document:
  assumes "load E url = Inr result" and "v \<in> set result"
  shows "v \<noteq> JUndefined \<and> v \<noteq> JNull
         \<and> \<not> (Array_isArray v \<and> array_length v = 0)
         \<and> \<not> (typeof v = ''object'' \<and> Object_keys_length v = 0)"
proof -
  from assms(1) obtain objs where
    "result = filter (\<lambda>v. v \<noteq> JUndefined \<and> v \<noteq> JNull
                 \<and> \<not> (Array_isArray v \<and> array_length v = 0)
                 \<and> \<not> (typeof v = ''object'' \<and> Object_keys_length v = 0)) objs"
    using load_Inr_filter by blast
  with assms(2) show ?thesis by simp
qed

theorem load_result_has_no_empty_document_witness:
  "load sample_env ''manifest.yaml'' =
     Inr [JNum 0, JBool False, JStr [], JObj [(''a'', JNum 1)], JArr [JNull]]
   \<and> JArr [JNull] \<in> set [JNum 0, JBool False, JStr [], JObj [(''a'', JNum 1)], JArr [JNull :: int jsval]]
   \<and> \<not> (Array_isArray (JArr [JNull :: int jsval]) \<and> array_length (JArr [JNull :: int jsval]) = 0)"
proof -
  have l: "load sample_env ''manifest.yaml'' =
             Inr [JNum 0, JBool False, JStr [], JObj [(''a'', JNum 1)], JArr [JNull]]"
    by (simp add: load_def load_body_def loadurl_def sample_env_def sample_documents_def)
  have m: "JArr [JNull] \<in> set [JNum 0, JBool False, JStr [], JObj [(''a'', JNum 1)], JArr [JNull :: int jsval]]"
    by simp
  from load_result_has_no_empty_document [OF l m] l m show ?thesis
    by blast
qed

section \<open>The fetch\<close>

text \<open>
  C6. With \<^verbatim>\<open>execFileSync\<close> as the specification describes it: for every location, when
  the child process exits with a nonzero status or writes more than 10 MiB on its standard
  output, \<^verbatim>\<open>load\<close> fails with the error of the fetch and returns no list; and when
  \<^verbatim>\<open>load\<close> goes on, it parses the whole output, never a part of it.
\<close>

theorem load_fails_when_fetch_fails:
  assumes "execFileSync E = execFileSync_spec run"
      and "r = run (execPath E) [path_join (dirname E) ''_loadurl.mjs'', url]"
  shows "(exit_status r \<noteq> 0 \<or> 10 * 1024 * 1024 < length (stdout r)
            \<longrightarrow> (\<exists>f. load E url = Inl (ExecError f)))
       \<and> (exit_status r = 0 \<and> length (stdout r) \<le> 10 * 1024 * 1024
            \<longrightarrow> load E url = load_body E (stdout r))"
  using assms
  by (auto simp: load_def loadurl_def execFileSync_spec_def MAX_DOWNLOAD_BUFFER_def Let_def)

theorem load_fails_when_fetch_fails_witness:
  "execFileSync (sample_env\<lparr>execFileSync := execFileSync_spec sample_run\<rparr>)
     = execFileSync_spec sample_run
   \<and> exit_status (sample_run ''/usr/bin/node'' [''/app/lib/_loadurl.mjs'', ''missing.yaml'']) \<noteq> 0
   \<and> (\<exists>f. load (sample_env\<lparr>execFileSync := execFileSync_spec sample_run\<rparr>) ''missing.yaml''
             = Inl (ExecError f))
   \<and> 10 * 1024 * 1024
        < length (stdout (sample_run ''/usr/bin/node'' [''/app/lib/_loadurl.mjs'', ''huge.yaml'']))
   \<and> (\<exists>f. load (sample_env\<lparr>execFileSync := execFileSync_spec sample_run\<rparr>) ''huge.yaml''
             = Inl (ExecError f))
   \<and> load (sample_env\<lparr>execFileSync := execFileSync_spec sample_run\<rparr>) ''ok.yaml''
       = load_body (sample_env\<lparr>execFileSync := execFileSync_spec sample_run\<rparr>) ''a: 1\<newline>''"
proof -
  let ?E = "sample_env\<lparr>execFileSync := execFileSync_spec sample_run\<rparr>"
  have e: "execFileSync ?E = execFileSync_spec sample_run" by simp
  have p: "execPath ?E = ''/usr/bin/node''" "path_join (dirname ?E) ''_loadurl.mjs'' = ''/app/lib/_loadurl.mjs''"
    by (simp_all add: sample_env_def path_join_def)
  have a: "exit_status (sample_run ''/usr/bin/node'' [''/app/lib/_loadurl.mjs'', ''missing.yaml'']) \<noteq> 0"
    by (simp add: sample_run_def)
  have b: "10 * 1024 * 1024
        < length (stdout (sample_run ''/usr/bin/node'' [''/app/lib/_loadurl.mjs'', ''huge.yaml'']))"
    by (simp add: sample_run_def)
  have c: "sample_run ''/usr/bin/node'' [''/app/lib/_loadurl.mjs'', ''ok.yaml'']
             = \<lparr>exit_status = 0, stdout = ''a: 1\<newline>''\<rparr>"
    by (simp add: sample_run_def)
  from load_fails_when_fetch_fails [OF e, of _ "''missing.yaml''"]
       load_fails_when_fetch_fails [OF e, of _ "''huge.yaml''"]
       load_fails_when_fetch_fails [OF e, of _ "''ok.yaml''"]
       e p a b c
  show ?thesis by simp
qed

section \<open>The schema version\<close>

text \<open>Under another version the parser of the specification reads the literal as
  decimal: the version that \<^verbatim>\<open>load\<close> passes decides the number.\<close>

lemma parse_0775_under_version_1_2:
  "YAML_parseAllDocuments_spec rest ''0775\<newline>''
     \<lparr>keepUndefined = None, lineWidth = None, version = Some ''1.2''\<rparr> = Inr [JNum 775]"
  by (simp add: YAML_parseAllDocuments_spec_def resolve_integer_def digit_of_def)



section \<open>Undefined values\<close>

text \<open>Without \<^verbatim>\<open>keepUndefined\<close> the serializer of the specification leaves the property
  out: the option that \<^verbatim>\<open>stringify\<close> passes decides the text.\<close>

lemma stringify_spec_without_keepUndefined:
  "YAML_stringify_spec value_text (JObj [(k, JUndefined), (k', JNull)]) parse_options
     = k' @ '': null\<newline>''"
  by (simp add: YAML_stringify_spec_def emitted_properties_def parse_options_def
      property_text_def)

text \<open>With the options that \<^verbatim>\<open>stringify\<close> passes, every property is emitted.\<close>

lemma emitted_properties_stringify_options:
  "emitted_properties stringify_options kvs = kvs"
  by (simp add: emitted_properties_def stringify_options_def)

text \<open>
  C8. With the serializer as the specification describes it: for every mapping that has a
  property whose value is undefined, the text that \<^verbatim>\<open>stringify\<close> returns for the mapping
  has the line of that property, its key followed by a colon and null, between the lines
  of the properties before it and of those after it.
\<close>

theorem stringify_keeps_undefined_property:
  assumes "YAML_stringify E = YAML_stringify_spec value_text"
      and "(k, JUndefined) \<in> set kvs"
  shows "\<exists>before after.
           kvs = before @ (k, JUndefined) # after
           \<and> stringify E [JObj kvs] =
               concat (map (property_text value_text) before)
               @ k @ '': null\<newline>''
               @ concat (map (property_text value_text) after)"
proof -
  from assms(2) obtain before after where kvs: "kvs = before @ (k, JUndefined) # after"
    by (auto dest: split_list)
  have "stringify E [JObj kvs] = YAML_stringify_spec value_text (JObj kvs) stringify_options"
    using assms(1) by (simp add: stringify_def)
  also have "\<dots> = concat (map (property_text value_text) kvs)"
    using kvs by (simp add: YAML_stringify_spec_def emitted_properties_stringify_options)
  also have "\<dots> = concat (map (property_text value_text) before)
               @ k @ '': null\<newline>''
               @ concat (map (property_text value_text) after)"
    by (simp add: kvs property_text_def)
  finally show ?thesis using kvs by blast
qed

theorem stringify_keeps_undefined_property_witness:
  "YAML_stringify (sample_env\<lparr>YAML_stringify := YAML_stringify_spec sample_value_text\<rparr>)
     = YAML_stringify_spec sample_value_text
   \<and> (''b'', JUndefined) \<in> set [(''a'', JNum (1::int)), (''b'', JUndefined)]
   \<and> (\<exists>before after.
         [(''a'', JNum 1), (''b'', JUndefined)] = before @ (''b'', JUndefined) # after
         \<and> stringify (sample_env\<lparr>YAML_stringify := YAML_stringify_spec sample_value_text\<rparr>)
             [JObj [(''a'', JNum 1), (''b'', JUndefined)]] =
               concat (map (property_text sample_value_text) before)
               @ ''b'' @ '': null\<newline>''
               @ concat (map (property_text sample_value_text) after))
   \<and> stringify (sample_env\<lparr>YAML_stringify := YAML_stringify_spec sample_value_text\<rparr>)
        [JObj [(''a'', JNum 1), (''b'', JUndefined)]] = ''a: 1\<newline>b: null\<newline>''"
proof -
  let ?E = "sample_env\<lparr>YAML_stringify := YAML_stringify_spec sample_value_text\<rparr>"
  have e: "YAML_stringify ?E = YAML_stringify_spec sample_value_text" by simp
  have m: "(''b'', JUndefined) \<in> set [(''a'', JNum (1::int)), (''b'', JUndefined)]" by simp
  have t: "stringify ?E [JObj [(''a'', JNum 1), (''b'', JUndefined)]] = ''a: 1\<newline>b: null\<newline>''"
    by (simp add: stringify_def YAML_stringify_spec_def emitted_properties_def
        stringify_options_def property_text_def sample_value_text_def)
  show ?thesis
    by (intro conjI e m t stringify_keeps_undefined_property [OF e m])
qed

text \<open>
  C7. \<^verbatim>\<open>stringify(undefined, {a: 1})\<close> is the blank line of the undefined document, the
  separator \<^verbatim>\<open>---\<close> with a newline, and the serialisation of the mapping. When the parser
  reads the second block back as the mapping and makes of the blank block an undefined
  document, a null document or no document, the parse and filter phase of \<^verbatim>\<open>load\<close>
  returns exactly the mapping: no undefined or null document is in the result.
\<close>

theorem stringify_undefined_then_mapping:
  fixes E :: "('d, int) env"
  assumes "YAML_parseAllDocuments E (stringify E [JUndefined, JObj [(''a'', JNum 1)]]) parse_options
             = Inr objects"
      and "map_toJSON (toJSON E) objects = Inr (es @ [JObj [(''a'', JNum 1)]])"
      and "\<forall>e \<in> set es. e = JUndefined \<or> e = JNull"
  shows "stringify E [JUndefined, JObj [(''a'', JNum 1)]]
           = ''\<newline>'' @ ''---\<newline>'' @ YAML_stringify E (JObj [(''a'', JNum 1)]) stringify_options
         \<and> load_body E (stringify E [JUndefined, JObj [(''a'', JNum 1)]])
           = Inr [JObj [(''a'', JNum 1)]]"
proof -
  have "filter (\<lambda>v. v \<noteq> JUndefined \<and> v \<noteq> JNull
                 \<and> \<not> (Array_isArray v \<and> array_length v = 0)
                 \<and> \<not> (typeof v = ''object'' \<and> Object_keys_length v = 0)) es = []"
    using assms(3) by (auto simp: filter_empty_conv)
  then have "load_loop (es @ [JObj [(''a'', JNum 1)]]) [] = [JObj [(''a'', JNum 1)]]"
    by (simp add: load_loop_filter)
  with assms(1,2) show ?thesis
    by (simp add: load_body_def stringify_def)
qed

theorem stringify_undefined_then_mapping_witness:
  "stringify sample_env [JUndefined, JObj [(''a'', JNum 1)]] = ''\<newline>---\<newline>a: 1\<newline>''
   \<and> YAML_parseAllDocuments sample_env (stringify sample_env [JUndefined, JObj [(''a'', JNum 1)]])
        parse_options = Inr [JUndefined, JObj [(''a'', JNum 1)]]
   \<and> map_toJSON (toJSON sample_env) [JUndefined, JObj [(''a'', JNum 1)]]
        = Inr ([JUndefined] @ [JObj [(''a'', JNum 1)]])
   \<and> load_body sample_env (stringify sample_env [JUndefined, JObj [(''a'', JNum 1)]])
        = Inr [JObj [(''a'', JNum 1)]]"
proof -
  have s: "stringify sample_env [JUndefined, JObj [(''a'', JNum 1)]] = ''\<newline>---\<newline>a: 1\<newline>''"
    by (simp add: stringify_def sample_env_def)
  have p: "YAML_parseAllDocuments sample_env (stringify sample_env [JUndefined, JObj [(''a'', JNum 1)]])
        parse_options = Inr [JUndefined, JObj [(''a'', JNum 1)]]"
    by (simp add: s) (simp add: sample_env_def)
  have j: "map_toJSON (toJSON sample_env) [JUndefined, JObj [(''a'', JNum 1)]]
        = Inr ([JUndefined] @ [JObj [(''a'', JNum 1)]])"
    by (simp add: sample_env_def)
  have q: "\<forall>e \<in> set [JUndefined :: int jsval]. e = JUndefined \<or> e = JNull" by simp
  have r: "load_body sample_env (stringify sample_env [JUndefined, JObj [(''a'', JNum 1)]])
        = Inr [JObj [(''a'', JNum 1)]]"
    using stringify_undefined_then_mapping [OF p j q] by (rule conjunct2)
  show ?thesis by (intro conjI s p j r)
qed

end
